theory Spec2Isabelle
  imports Complex_Main
begin

section \<open>Errors and values\<close>

text \<open>
  The values that cross the boundary of the retry handler of \<^verbatim>\<open>retry.decorator.ts\<close>.
  An error thrown by the wrapped operation is an \<^verbatim>\<open>Error\<close> object: its prototype chain
  (the names of the constructors it is an instance of, most specific first), its
  \<^verbatim>\<open>name\<close>, its \<^verbatim>\<open>message\<close> and its \<^verbatim>\<open>code\<close> when it has one. The two classes the
  file declares, \<^verbatim>\<open>MaxAttemptsError\<close> and \<^verbatim>\<open>AbortError\<close>, are constructors of their own
  with the arguments of their JavaScript constructors.
\<close>

datatype error =
    is_Thrown: Thrown (proto: "string list") (thrownName: string) (thrownMessage: string)
           (thrownCode: "string option")
  | is_MaxAttemptsError: MaxAttemptsError (originalError: error) (retryCount: nat)
  | is_AbortError: AbortError (abortMessage: string)

datatype js_value = Undefined | JString string | JNumber int

text \<open>Decimal rendering of a loop counter inside a template literal.\<close>

definition digit :: "nat \<Rightarrow> char" where
  "digit d =
     (if d = 0 then CHR ''0'' else if d = 1 then CHR ''1'' else if d = 2 then CHR ''2''
      else if d = 3 then CHR ''3'' else if d = 4 then CHR ''4'' else if d = 5 then CHR ''5''
      else if d = 6 then CHR ''6'' else if d = 7 then CHR ''7'' else if d = 8 then CHR ''8''
      else CHR ''9'')"

fun show_nat :: "nat \<Rightarrow> string" where
  "show_nat n = (if n < 10 then [digit n] else show_nat (n div 10) @ [digit (n mod 10)])"

declare show_nat.simps [simp del]

text \<open>
  \<^verbatim>\<open>super(`Max retry reached: ${retryCount}, original error: ${originalError.message}`)\<close>
  and \<^verbatim>\<open>super(message)\<close>.
\<close>

fun message :: "error \<Rightarrow> string" where
  "message (Thrown p n m c) = m"
| "message (MaxAttemptsError e k) =
     ''Max retry reached: '' @ show_nat k @ '', original error: '' @ message e"
| "message (AbortError m) = m"

text \<open>
  \<^verbatim>\<open>code = '429'\<close> and \<^verbatim>\<open>code = 'ABORT_ERR'\<close>; \<^verbatim>\<open>this.name = 'AbortError'\<close>, while
  \<^verbatim>\<open>MaxAttemptsError\<close> keeps the name it inherits from \<^verbatim>\<open>Error\<close>.
\<close>

fun code :: "error \<Rightarrow> string option" where
  "code (Thrown p n m c) = c"
| "code (MaxAttemptsError e k) = Some ''429''"
| "code (AbortError m) = Some ''ABORT_ERR''"

fun name :: "error \<Rightarrow> string" where
  "name (Thrown p n m c) = n"
| "name (MaxAttemptsError e k) = ''Error''"
| "name (AbortError m) = ''AbortError''"

fun prototypeChain :: "error \<Rightarrow> string list" where
  "prototypeChain (Thrown p n m c) = p"
| "prototypeChain (MaxAttemptsError e k) = [''MaxAttemptsError'', ''Error'']"
| "prototypeChain (AbortError m) = [''AbortError'', ''Error'']"

definition instanceof :: "error \<Rightarrow> string \<Rightarrow> bool" where
  "instanceof e errorType = (errorType \<in> set (prototypeChain e))"

section \<open>Options\<close>

datatype BackOffPolicy = FixedBackOffPolicy | ExponentialBackOffPolicy

record ExponentialOption =
  maxInterval :: real
  multiplier :: real

text \<open>
  \<^verbatim>\<open>interface RetryOptions\<close>. An optional property is an \<open>option\<close>; \<open>None\<close> is
  \<^verbatim>\<open>undefined\<close>. Numbers of milliseconds are reals (rounding of doubles is not
  modelled); for \<open>backOff\<close>, \<open>None\<close> also stands for \<^verbatim>\<open>NaN\<close>, the other falsy
  non-number. \<open>maxAttempts\<close> is an integer of either sign. The property \<^verbatim>\<open>value\<close> is
  \<open>value_opt\<close> here, a list of constructor names. \<open>signal\<close> is a reference to an
  \<^verbatim>\<open>AbortSignal\<close> whose state lives in the world below.
\<close>

type_synonym signal_ref = nat

record RetryOptions =
  maxAttempts :: int
  backOffPolicy :: "BackOffPolicy option"
  backOff :: "real option"
  doRetry :: "(error \<Rightarrow> bool) option"
  value_opt :: "string list option"
  exponentialOption :: "ExponentialOption option"
  reraise :: "bool option"
  signal :: "signal_ref option"

section \<open>The world outside the handler\<close>

text \<open>
  What the handler observes and what changes while it awaits: a clock in milliseconds,
  the \<^verbatim>\<open>aborted\<close> flag of every signal, the pending timers that will call
  \<^verbatim>\<open>controller.abort()\<close> (as in \<^verbatim>\<open>setTimeout(() => controller.abort(), 100)\<close>), and the
  state of the wrapped operation. The operation \<^verbatim>\<open>fn.apply(context, args)\<close>, awaited,
  is a transformer of this world that ends in a value or an error; whatever happens
  during its own awaits, a timer firing included, is part of that transformation.
  A pending timer does not set the flag by itself: its callback runs only when the
  handler waits on a timer of its own, in \<^verbatim>\<open>sleepWithAbort\<close>.
\<close>

record 'm world =
  clock :: real
  aborted :: "signal_ref \<Rightarrow> bool"
  abortAt :: "signal_ref \<Rightarrow> real option"
  mem :: 'm

type_synonym 'm operation = "'m world \<Rightarrow> (error + js_value) \<times> 'm world"

text \<open>\<^verbatim>\<open>options.signal?.aborted\<close>: the flag of the signal, falsy without a signal.\<close>

definition signalAborted :: "signal_ref option \<Rightarrow> 'm world \<Rightarrow> bool" where
  "signalAborted sig w = (case sig of None \<Rightarrow> False | Some s \<Rightarrow> aborted w s)"

text \<open>
  The delay that \<^verbatim>\<open>setTimeout(resolve, ms)\<close> really waits on Node, where the test suite
  runs: a delay larger than 2147483647 or less than 1 is set to 1, and any other delay
  is truncated to an integer.
\<close>

definition timerDelay :: "real \<Rightarrow> real" where
  "timerDelay ms = (if 2147483647 < ms \<or> ms < 1 then 1 else of_int (floor ms))"

text \<open>
  \<^verbatim>\<open>sleepWithAbort\<close>: rejects at once when the signal is aborted; otherwise the timer
  races the signal's \<^verbatim>\<open>abort\<close> event. A pending abort due strictly before the timer
  fires first (at once if it is overdue): its callback sets the flag, and the listener
  \<^verbatim>\<open>onAbort\<close> rejects at that time. Otherwise the timer resolves after its delay and
  the pending abort stays pending.
\<close>

definition sleepWithAbort ::
  "real \<Rightarrow> signal_ref option \<Rightarrow> 'm world \<Rightarrow> (error + unit) \<times> 'm world" where
  "sleepWithAbort ms sig w =
     (if signalAborted sig w then (Inl (AbortError ''Retry operation aborted''), w)
      else
        (case sig of
           None \<Rightarrow> (Inr (), w\<lparr>clock := clock w + timerDelay ms\<rparr>)
         | Some s \<Rightarrow>
             (case abortAt w s of
                None \<Rightarrow> (Inr (), w\<lparr>clock := clock w + timerDelay ms\<rparr>)
              | Some t \<Rightarrow>
                  if t < clock w + timerDelay ms
                  then (Inl (AbortError ''Retry operation aborted''),
                        w\<lparr>clock := max t (clock w),
                          aborted := (aborted w)(s := True),
                          abortAt := (abortAt w)(s := None)\<rparr>)
                  else (Inr (), w\<lparr>clock := clock w + timerDelay ms\<rparr>))))"

section \<open>The retry handler\<close>

text \<open>\<^verbatim>\<open>canRetry\<close>, with \<^verbatim>\<open>options.value?.length\<close> truthy for a non-empty list.\<close>

definition canRetry :: "RetryOptions \<Rightarrow> error \<Rightarrow> bool" where
  "canRetry options e =
     (if (case doRetry options of None \<Rightarrow> False | Some p \<Rightarrow> \<not> p e) then False
      else if (case value_opt options of
                 None \<Rightarrow> False
               | Some ts \<Rightarrow> ts \<noteq> [] \<and> \<not> list_ex (\<lambda>errorType. instanceof e errorType) ts)
      then False
      else True)"

text \<open>
  \<^verbatim>\<open>setExponentialBackOffPolicyDefault\<close> assigns to the properties of the object it is
  given; the result is that object after the call. \<^verbatim>\<open>!opts.backOff\<close> holds for
  \<^verbatim>\<open>undefined\<close> and for \<open>0\<close>.
\<close>

definition setExponentialBackOffPolicyDefault :: "RetryOptions \<Rightarrow> RetryOptions" where
  "setExponentialBackOffPolicyDefault opts =
     opts\<lparr> backOff := (case backOff opts of
                          None \<Rightarrow> Some 1000
                        | Some b \<Rightarrow> if b = 0 then Some 1000 else Some b),
           exponentialOption := (case exponentialOption opts of
                                   None \<Rightarrow> Some \<lparr>maxInterval = 2000, multiplier = 2\<rparr>
                                 | Some eo \<Rightarrow> Some eo) \<rparr>"

text \<open>
  \<^verbatim>\<open>createRetryHandler\<close> returns the closure \<^verbatim>\<open>retryAsync\<close>, which reads the very object
  the caller passed. The model returns that object as the call leaves it: it is both
  the caller's options afterwards and the options the closure runs with.
\<close>

definition createRetryHandler :: "RetryOptions \<Rightarrow> RetryOptions" where
  "createRetryHandler options =
     (if backOffPolicy options = Some ExponentialBackOffPolicy
      then setExponentialBackOffPolicyDefault options
      else options)"

text \<open>
  What one call of the handler did, in order: an invocation of the operation with its
  outcome, or a call of \<^verbatim>\<open>sleepWithAbort\<close> with the delay it was given, the world it
  started in and its outcome.
\<close>

datatype 'm event = Invoked "error + js_value" | Slept real "'m world" "error + unit"

type_synonym 'm run = "(error + js_value) \<times> 'm event list \<times> 'm world"

definition prepend :: "'m event list \<Rightarrow> 'm run \<Rightarrow> 'm run" where
  "prepend evs r = (case r of (res, tr, w) \<Rightarrow> (res, evs @ tr, w))"

text \<open>\<^verbatim>\<open>if (backOff) { await sleepWithAbort(backOff, options.signal); }\<close>\<close>

definition backOffWait ::
  "real option \<Rightarrow> signal_ref option \<Rightarrow> 'm world
     \<Rightarrow> (error + unit) \<times> 'm event list \<times> 'm world" where
  "backOffWait b sig w =
     (case b of
        None \<Rightarrow> (Inr (), [], w)
      | Some ms \<Rightarrow>
          if ms = 0 then (Inr (), [], w)
          else (case sleepWithAbort ms sig w of (r, w') \<Rightarrow> (r, [Slept ms w r], w')))"

text \<open>
  The update of the local \<^verbatim>\<open>backOff\<close> at the end of the \<^verbatim>\<open>catch\<close> block. Reading
  \<^verbatim>\<open>options.exponentialOption.multiplier\<close> of an absent option is a \<^verbatim>\<open>TypeError\<close>.
\<close>

definition nextBackOff :: "RetryOptions \<Rightarrow> nat \<Rightarrow> real option \<Rightarrow> error + real option" where
  "nextBackOff options i b =
     (if backOffPolicy options = Some ExponentialBackOffPolicy then
        (case exponentialOption options of
           None \<Rightarrow> Inl (Thrown [''TypeError'', ''Error''] ''TypeError''
                          ''Cannot read properties of undefined (reading 'multiplier')'' None)
         | Some eo \<Rightarrow>
             Inr (map_option (\<lambda>x. min (x * multiplier eo ^ i) (maxInterval eo)) b))
      else Inr b)"

text \<open>
  The \<^verbatim>\<open>for\<close> loop of \<^verbatim>\<open>retryAsync\<close> from index \<open>i\<close> with the local \<^verbatim>\<open>backOff\<close> at \<open>b\<close>.
  Leaving the loop without a \<^verbatim>\<open>return\<close> resolves with \<^verbatim>\<open>undefined\<close>.
\<close>

function retryLoop ::
  "RetryOptions \<Rightarrow> 'm operation \<Rightarrow> nat \<Rightarrow> real option \<Rightarrow> 'm world \<Rightarrow> 'm run" where
  "retryLoop options fn i b w =
     (if int i < maxAttempts options + 1 then
        if signalAborted (signal options) w
        then (Inl (AbortError ''Retry operation aborted''), [], w)
        else
          (case fn w of
             (Inr v, w1) \<Rightarrow> (Inr v, [Invoked (Inr v)], w1)
           | (Inl e, w1) \<Rightarrow>
               if int i = maxAttempts options then
                 (if reraise options = Some True then (Inl e, [Invoked (Inl e)], w1)
                  else (Inl (MaxAttemptsError e i), [Invoked (Inl e)], w1))
               else if \<not> canRetry options e then (Inl e, [Invoked (Inl e)], w1)
               else if signalAborted (signal options) w1
               then (Inl (AbortError ''Retry operation aborted''), [Invoked (Inl e)], w1)
               else
                 (case backOffWait b (signal options) w1 of
                    (Inl a, evs, w2) \<Rightarrow> (Inl a, Invoked (Inl e) # evs, w2)
                  | (Inr u, evs, w2) \<Rightarrow>
                      (case nextBackOff options i b of
                         Inl t \<Rightarrow> (Inl t, Invoked (Inl e) # evs, w2)
                       | Inr b' \<Rightarrow>
                           prepend (Invoked (Inl e) # evs)
                             (retryLoop options fn (i + 1) b' w2))))
      else (Inr Undefined, [], w))"
  by pat_completeness auto
termination
  by (relation "measure (\<lambda>(options, fn, i, b, w). nat (maxAttempts options + 1 - int i))") auto

declare retryLoop.simps [simp del]

definition retryAsync :: "RetryOptions \<Rightarrow> 'm operation \<Rightarrow> 'm world \<Rightarrow> 'm run" where
  "retryAsync options fn w = retryLoop options fn 0 (backOff options) w"

text \<open>
  \<^verbatim>\<open>withRetry(options, fn)\<close> and \<^verbatim>\<open>Retryable(options)\<close> build the handler once and
  forward every call to it.
\<close>

definition withRetry :: "RetryOptions \<Rightarrow> 'm operation \<Rightarrow> 'm world \<Rightarrow> 'm run" where
  "withRetry options fn w = retryAsync (createRetryHandler options) fn w"

definition Retryable :: "RetryOptions \<Rightarrow> 'm operation \<Rightarrow> 'm world \<Rightarrow> 'm run" where
  "Retryable options originalFn w = retryAsync (createRetryHandler options) originalFn w"

section \<open>Reading a run\<close>

text \<open>
  The number of times the operation was invoked, the outcome of each invocation in
  order, and the delays handed to \<^verbatim>\<open>sleepWithAbort\<close> in order.
\<close>

fun invocations :: "'m event list \<Rightarrow> nat" where
  "invocations [] = 0"
| "invocations (Invoked r # tr) = Suc (invocations tr)"
| "invocations (Slept ms w r # tr) = invocations tr"

fun outcomes :: "'m event list \<Rightarrow> (error + js_value) list" where
  "outcomes [] = []"
| "outcomes (Invoked r # tr) = r # outcomes tr"
| "outcomes (Slept ms w r # tr) = outcomes tr"

fun sleeps :: "'m event list \<Rightarrow> real list" where
  "sleeps [] = []"
| "sleeps (Invoked r # tr) = sleeps tr"
| "sleeps (Slept ms w r # tr) = ms # sleeps tr"

definition result :: "'m run \<Rightarrow> error + js_value" where
  "result r = fst r"

definition trace :: "'m run \<Rightarrow> 'm event list" where
  "trace r = fst (snd r)"

definition finalWorld :: "'m run \<Rightarrow> 'm world" where
  "finalWorld r = snd (snd r)"

section \<open>Decimal numerals\<close>

text \<open>
  What \<^verbatim>\<open>${retryCount}\<close> must produce for a non-negative integer, stated without
  \<open>show_nat\<close>: a non-empty string of the characters \<^verbatim>\<open>0\<close> to \<^verbatim>\<open>9\<close>, with no leading zero
  unless it is \<^verbatim>\<open>0\<close> itself, whose value read in base ten is the number.
\<close>

definition digitValue :: "char \<Rightarrow> nat" where
  "digitValue c = of_char c - of_char (CHR ''0'')"

definition decimalValue :: "string \<Rightarrow> nat" where
  "decimalValue ds = foldl (\<lambda>acc c. 10 * acc + digitValue c) 0 ds"

definition isDecimalOf :: "string \<Rightarrow> nat \<Rightarrow> bool" where
  "isDecimalOf ds n =
     (ds \<noteq> [] \<and> list_all (\<lambda>c. c \<in> set ''0123456789'') ds
      \<and> (ds = ''0'' \<or> hd ds \<noteq> CHR ''0'') \<and> decimalValue ds = n)"

section \<open>The backoff schedule and the jitter of the specification\<close>

text \<open>
  The nominal delay as the specification words it, for comparison with the delays the
  handler hands to \<^verbatim>\<open>sleepWithAbort\<close>:
  \<^verbatim>\<open>min(baseDelay * multiplier^retryIndex, maxInterval)\<close>.
\<close>

definition nominalDelay_spec :: "real \<Rightarrow> ExponentialOption \<Rightarrow> nat \<Rightarrow> real" where
  "nominalDelay_spec baseDelay eo retryIndex =
     min (baseDelay * multiplier eo ^ retryIndex) (maxInterval eo)"

text \<open>
  Modelled from the spec: the jitter strategy. \<^verbatim>\<open>retry.decorator.ts\<close> has no jitter
  (\<^verbatim>\<open>RetryOptions\<close> has neither \<^verbatim>\<open>useJitter\<close> nor \<^verbatim>\<open>jitterType\<close>, and
  \<^verbatim>\<open>retryAsync\<close> sleeps the nominal delay); only the tests of it are among the sources.
  The definitions follow section 4.4 of the specification. A draw "uniform random in
  \<open>[lo, hi)\<close>" is \<open>lo + u * (hi - lo)\<close> for a sample \<open>u\<close> of \<open>[0, 1)\<close>, which is a
  parameter; \<open>p\<close> is the previous actual delay of the decorrelated strategy.
\<close>

datatype JitterType = NoJitter | Full | Equal | Decorrelated

text \<open>
  Modelled from the spec: the \<open>jitter\<close> field of the policy,
  \<^verbatim>\<open>{enabled: bool (default false), type: enum (default Full when enabled and unspecified)}\<close>.
\<close>

record Jitter =
  enabled :: bool
  jitterType :: "JitterType option"

text \<open>Modelled from the spec: a draw "uniform random in \<open>[lo, hi)\<close>" for the sample \<open>u\<close>.\<close>

definition uniformIn :: "real \<Rightarrow> real \<Rightarrow> real \<Rightarrow> real" where
  "uniformIn lo hi u = lo + u * (hi - lo)"

text \<open>
  Modelled from the spec: the four strategies. None: \<open>d\<close> unchanged. Full: uniform random
  in \<open>[0, d)\<close>. Equal: \<open>d/2\<close> plus uniform random in \<open>[0, d/2)\<close>. Decorrelated:
  \<open>min(maxInterval, uniform random in [baseDelay, p * 3))\<close>.
\<close>

definition applyJitter ::
  "JitterType \<Rightarrow> real \<Rightarrow> real \<Rightarrow> real \<Rightarrow> real \<Rightarrow> real \<Rightarrow> real" where
  "applyJitter t baseDelay maxInt p d u =
     (case t of
        NoJitter \<Rightarrow> d
      | Full \<Rightarrow> uniformIn 0 d u
      | Equal \<Rightarrow> d / 2 + uniformIn 0 (d / 2) u
      | Decorrelated \<Rightarrow> min maxInt (uniformIn baseDelay (p * 3) u))"

text \<open>
  Modelled from the spec: the wait for a nominal delay. "If \<open>jitter.enabled\<close> is false,
  the scheduler's nominal delay is used verbatim"; the type defaults to Full.
\<close>

definition actualWait :: "Jitter \<Rightarrow> real \<Rightarrow> real \<Rightarrow> real \<Rightarrow> real \<Rightarrow> real \<Rightarrow> real" where
  "actualWait j baseDelay maxInt p d u =
     (if enabled j
      then applyJitter (case jitterType j of None \<Rightarrow> Full | Some t \<Rightarrow> t) baseDelay maxInt p d u
      else d)"

section \<open>Operations, worlds and options of the test suite\<close>

definition Error :: "string \<Rightarrow> error" where
  "Error m = Thrown [''Error''] ''Error'' m None"

definition SyntaxError :: "string \<Rightarrow> error" where
  "SyntaxError m = Thrown [''SyntaxError'', ''Error''] ''SyntaxError'' m None"

text \<open>\<^verbatim>\<open>jest.fn().mockRejectedValue(new Error(m))\<close>\<close>

definition alwaysFails :: "string \<Rightarrow> 'm operation" where
  "alwaysFails m w = (Inl (Error m), w)"

text \<open>
  A mock with one scripted outcome per call, counting its calls in the world;
  past the script it returns \<^verbatim>\<open>undefined\<close>.
\<close>

definition scripted :: "(error + js_value) list \<Rightarrow> nat operation" where
  "scripted outs w =
     (if mem w < length outs then outs ! mem w else Inr Undefined, w\<lparr>mem := mem w + 1\<rparr>)"

definition quietWorld :: "nat world" where
  "quietWorld = \<lparr>clock = 0, aborted = (\<lambda>s. False), abortAt = (\<lambda>s. None), mem = 0\<rparr>"

text \<open>\<^verbatim>\<open>{ maxAttempts: n }\<close>\<close>

definition onlyMaxAttempts :: "int \<Rightarrow> RetryOptions" where
  "onlyMaxAttempts n =
     \<lparr>maxAttempts = n, backOffPolicy = None, backOff = None, doRetry = None,
      value_opt = None, exponentialOption = None, reraise = None, signal = None\<rparr>"

text \<open>
  The exponential example of the README, commented there "wait 1s, 3s, 9s":
  \<^verbatim>\<open>{ maxAttempts: 3, backOffPolicy: BackOffPolicy.ExponentialBackOffPolicy, backOff: 1000,
     exponentialOption: { maxInterval: 10000, multiplier: 3 } }\<close>
\<close>

definition readmeExponential :: RetryOptions where
  "readmeExponential =
     (onlyMaxAttempts 3)\<lparr>backOffPolicy := Some ExponentialBackOffPolicy, backOff := Some 1000,
        exponentialOption := Some \<lparr>maxInterval = 10000, multiplier = 3\<rparr>\<rparr>"

text \<open>\<^verbatim>\<open>{ maxAttempts: n, value: [SyntaxError, ReferenceError] }\<close>\<close>

definition syntaxErrorsOnly :: "int \<Rightarrow> RetryOptions" where
  "syntaxErrorsOnly n =
     (onlyMaxAttempts n)\<lparr>value_opt := Some [''SyntaxError'', ''ReferenceError'']\<rparr>"

text \<open>
  \<^verbatim>\<open>signal: controller.signal\<close>, with the controller's signal at reference 0; the world
  after \<^verbatim>\<open>controller.abort()\<close>; and the world with a pending
  \<^verbatim>\<open>setTimeout(() => controller.abort(), t)\<close>.
\<close>

definition withSignal :: "RetryOptions \<Rightarrow> RetryOptions" where
  "withSignal options = options\<lparr>signal := Some 0\<rparr>"

definition abortedWorld :: "nat world" where
  "abortedWorld = quietWorld\<lparr>aborted := (\<lambda>s. s = 0)\<rparr>"

definition abortPendingWorld :: "real \<Rightarrow> nat world" where
  "abortPendingWorld t = quietWorld\<lparr>abortAt := (\<lambda>s. if s = 0 then Some t else None)\<rparr>"

text \<open>
  \<^verbatim>\<open>{ maxAttempts: 3, backOffPolicy: BackOffPolicy.ExponentialBackOffPolicy }\<close>, and the
  predicate of the test suite, \<^verbatim>\<open>doRetry: (e) => e.message === 'Error: 429'\<close>.
\<close>

definition onlyExponential :: RetryOptions where
  "onlyExponential = (onlyMaxAttempts 3)\<lparr>backOffPolicy := Some ExponentialBackOffPolicy\<rparr>"

definition only429 :: "error \<Rightarrow> bool" where
  "only429 e = (message e = ''Error: 429'')"

text \<open>\<^verbatim>\<open>useJitter: true\<close> with no \<^verbatim>\<open>jitterType\<close>, and \<^verbatim>\<open>useJitter: false\<close>.\<close>

definition fullByDefault :: Jitter where
  "fullByDefault = \<lparr>enabled = True, jitterType = None\<rparr>"

definition jitterOff :: Jitter where
  "jitterOff = \<lparr>enabled = False, jitterType = Some Full\<rparr>"

section \<open>Traces\<close>

lemmas run_defs = retryAsync_def withRetry_def createRetryHandler_def
  setExponentialBackOffPolicyDefault_def retryLoop.simps signalAborted_def canRetry_def
  backOffWait_def sleepWithAbort_def timerDelay_def nextBackOff_def prepend_def instanceof_def

lemma invocations_append: "invocations (xs @ ys) = invocations xs + invocations ys"
  by (induction xs rule: invocations.induct) auto

lemma outcomes_append: "outcomes (xs @ ys) = outcomes xs @ outcomes ys"
  by (induction xs rule: outcomes.induct) auto

lemma sleeps_append: "sleeps (xs @ ys) = sleeps xs @ sleeps ys"
  by (induction xs rule: sleeps.induct) auto

lemma length_outcomes: "length (outcomes tr) = invocations tr"
  by (induction tr rule: outcomes.induct) auto

lemma sleepWithAbort_result:
  "sleepWithAbort ms sig w = (r, w') \<Longrightarrow>
     r = Inr () \<or> r = Inl (AbortError ''Retry operation aborted'')"
  by (auto simp: sleepWithAbort_def split: if_splits option.splits)

lemma backOffWait_result:
  "backOffWait b sig w = (r, evs, w') \<Longrightarrow>
     r = Inr () \<or> r = Inl (AbortError ''Retry operation aborted'')"
  by (auto simp: backOffWait_def split: option.splits if_splits prod.splits
      dest: sleepWithAbort_result)

lemma backOffWait_events:
  "backOffWait b sig w = (r, evs, w') \<Longrightarrow> evs = [] \<or> (\<exists>ms. evs = [Slept ms w r])"
  by (auto simp: backOffWait_def split: option.splits if_splits prod.splits)

lemma backOffWait_slept:
  "backOffWait b sig w = (r, evs, w') \<Longrightarrow> Slept ms w1 x \<in> set evs \<Longrightarrow>
     w1 = w \<and> x = r \<and> sleepWithAbort ms sig w = (r, w')"
  by (auto simp: backOffWait_def split: option.splits if_splits prod.splits)

lemma backOffWait_counts:
  assumes "backOffWait b sig w = (r, evs, w')"
  shows "invocations evs = 0" and "outcomes evs = []"
  using backOffWait_events [OF assms] by auto

lemma retryLoop_cases [consumes 1, case_names finished aborted success exhausted rejected
    abortedAfter sleepAborted typeError continue]:
  assumes "retryLoop options fn i b w = (r, tr, w')"
  obtains
    "\<not> int i < maxAttempts options + 1" "r = Inr Undefined" "tr = []" "w' = w"
  | "int i < maxAttempts options + 1" "signalAborted (signal options) w"
      "r = Inl (AbortError ''Retry operation aborted'')" "tr = []" "w' = w"
  | v where "int i < maxAttempts options + 1" "\<not> signalAborted (signal options) w"
      "fn w = (Inr v, w')" "r = Inr v" "tr = [Invoked (Inr v)]"
  | e where "int i = maxAttempts options" "\<not> signalAborted (signal options) w"
      "fn w = (Inl e, w')"
      "r = (if reraise options = Some True then Inl e else Inl (MaxAttemptsError e i))"
      "tr = [Invoked (Inl e)]"
  | e where "int i < maxAttempts options" "\<not> signalAborted (signal options) w"
      "fn w = (Inl e, w')" "\<not> canRetry options e" "r = Inl e" "tr = [Invoked (Inl e)]"
  | e where "int i < maxAttempts options" "\<not> signalAborted (signal options) w"
      "fn w = (Inl e, w')" "canRetry options e" "signalAborted (signal options) w'"
      "r = Inl (AbortError ''Retry operation aborted'')" "tr = [Invoked (Inl e)]"
  | e w1 a evs where "int i < maxAttempts options" "\<not> signalAborted (signal options) w"
      "fn w = (Inl e, w1)" "canRetry options e" "\<not> signalAborted (signal options) w1"
      "backOffWait b (signal options) w1 = (Inl a, evs, w')"
      "r = Inl a" "tr = Invoked (Inl e) # evs"
  | e w1 u evs t where "int i < maxAttempts options" "\<not> signalAborted (signal options) w"
      "fn w = (Inl e, w1)" "canRetry options e" "\<not> signalAborted (signal options) w1"
      "backOffWait b (signal options) w1 = (Inr u, evs, w')"
      "nextBackOff options i b = Inl t" "r = Inl t" "tr = Invoked (Inl e) # evs"
  | e w1 u evs w2 b' tr2 where "int i < maxAttempts options"
      "\<not> signalAborted (signal options) w"
      "fn w = (Inl e, w1)" "canRetry options e" "\<not> signalAborted (signal options) w1"
      "backOffWait b (signal options) w1 = (Inr u, evs, w2)"
      "nextBackOff options i b = Inr b'"
      "retryLoop options fn (i + 1) b' w2 = (r, tr2, w')"
      "tr = Invoked (Inl e) # evs @ tr2"
proof -
  note unfolded = assms [unfolded retryLoop.simps [of options fn i b w]]
  show thesis
  proof (cases "int i < maxAttempts options + 1")
    case False
    with unfolded have "r = Inr Undefined \<and> tr = [] \<and> w' = w" by auto
    with False show thesis using that(1) by blast
  next
    case inBudget: True
    show thesis
    proof (cases "signalAborted (signal options) w")
      case True
      with unfolded inBudget
      have "r = Inl (AbortError ''Retry operation aborted'') \<and> tr = [] \<and> w' = w" by auto
      with inBudget True show thesis using that(2) by blast
    next
      case notAborted: False
      obtain x w1 where fw: "fn w = (x, w1)" by (cases "fn w")
      show thesis
      proof (cases x)
        case (Inr v)
        with unfolded inBudget notAborted fw
        have "r = Inr v \<and> tr = [Invoked (Inr v)] \<and> w' = w1" by auto
        with inBudget notAborted fw Inr show thesis using that(3) by blast
      next
        case (Inl e)
        from unfolded inBudget notAborted fw Inl
        have body: "(if int i = maxAttempts options then
                 (if reraise options = Some True then (Inl e, [Invoked (Inl e)], w1)
                  else (Inl (MaxAttemptsError e i), [Invoked (Inl e)], w1))
               else if \<not> canRetry options e then (Inl e, [Invoked (Inl e)], w1)
               else if signalAborted (signal options) w1
               then (Inl (AbortError ''Retry operation aborted''), [Invoked (Inl e)], w1)
               else
                 (case backOffWait b (signal options) w1 of
                    (Inl a, evs, w2) \<Rightarrow> (Inl a, Invoked (Inl e) # evs, w2)
                  | (Inr u, evs, w2) \<Rightarrow>
                      (case nextBackOff options i b of
                         Inl t \<Rightarrow> (Inl t, Invoked (Inl e) # evs, w2)
                       | Inr b' \<Rightarrow>
                           prepend (Invoked (Inl e) # evs)
                             (retryLoop options fn (i + 1) b' w2)))) = (r, tr, w')"
          by simp
        note fw' = fw [unfolded Inl]
        show thesis
        proof (cases "int i = maxAttempts options")
          case True
          with body
          have "r = (if reraise options = Some True then Inl e else Inl (MaxAttemptsError e i))
                \<and> tr = [Invoked (Inl e)] \<and> w' = w1"
            by (auto split: if_splits)
          with True notAborted fw' show thesis using that(4) by blast
        next
          case False
          with inBudget have lt: "int i < maxAttempts options" by simp
          show thesis
          proof (cases "canRetry options e")
            case False
            with body lt have "r = Inl e \<and> tr = [Invoked (Inl e)] \<and> w' = w1" by auto
            with False lt notAborted fw' show thesis using that(5) by blast
          next
            case retry: True
            show thesis
            proof (cases "signalAborted (signal options) w1")
              case True
              with body lt retry
              have "r = Inl (AbortError ''Retry operation aborted'')
                    \<and> tr = [Invoked (Inl e)] \<and> w' = w1" by auto
              with True retry lt notAborted fw' show thesis using that(6) by blast
            next
              case awake: False
              obtain s evs w2 where bw: "backOffWait b (signal options) w1 = (s, evs, w2)"
                by (cases "backOffWait b (signal options) w1")
              show thesis
              proof (cases s)
                case (Inl a)
                with body lt retry awake bw
                have "r = Inl a \<and> tr = Invoked (Inl e) # evs \<and> w' = w2" by auto
                with awake retry lt notAborted fw' bw Inl show thesis using that(7) by blast
              next
                case (Inr u)
                note bw' = bw [unfolded Inr]
                show thesis
                proof (cases "nextBackOff options i b")
                  case (Inl t)
                  with body lt retry awake bw'
                  have "r = Inl t \<and> tr = Invoked (Inl e) # evs \<and> w' = w2" by auto
                  with awake retry lt notAborted fw' bw' Inl show thesis using that(8) by blast
                next
                  case (Inr b')
                  obtain r2 tr2 w3 where rec: "retryLoop options fn (i + 1) b' w2 = (r2, tr2, w3)"
                    by (cases "retryLoop options fn (i + 1) b' w2")
                  with body lt retry awake bw' Inr
                  have "r = r2 \<and> tr = Invoked (Inl e) # evs @ tr2 \<and> w' = w3"
                    by (auto simp: prepend_def)
                  with awake retry lt notAborted fw' bw' Inr rec show thesis
                    using that(9) by blast
                qed
              qed
            qed
          qed
        qed
      qed
    qed
  qed
qed


lemma retryLoop_run_induct [consumes 1, case_names finished aborted success exhausted rejected
    abortedAfter sleepAborted typeError continue]:
  assumes run: "retryLoop options fn i b w = (r, tr, w')"
    and finished: "\<And>i b w. \<not> int i < maxAttempts options + 1 \<Longrightarrow> P i b w (Inr Undefined) [] w"
    and aborted: "\<And>i b w. int i < maxAttempts options + 1 \<Longrightarrow> signalAborted (signal options) w
        \<Longrightarrow> P i b w (Inl (AbortError ''Retry operation aborted'')) [] w"
    and success: "\<And>i b w v w'. int i < maxAttempts options + 1
        \<Longrightarrow> \<not> signalAborted (signal options) w \<Longrightarrow> fn w = (Inr v, w')
        \<Longrightarrow> P i b w (Inr v) [Invoked (Inr v)] w'"
    and exhausted: "\<And>i b w e w'. int i = maxAttempts options
        \<Longrightarrow> \<not> signalAborted (signal options) w \<Longrightarrow> fn w = (Inl e, w')
        \<Longrightarrow> P i b w (if reraise options = Some True then Inl e
                       else Inl (MaxAttemptsError e i)) [Invoked (Inl e)] w'"
    and rejected: "\<And>i b w e w'. int i < maxAttempts options
        \<Longrightarrow> \<not> signalAborted (signal options) w \<Longrightarrow> fn w = (Inl e, w')
        \<Longrightarrow> \<not> canRetry options e \<Longrightarrow> P i b w (Inl e) [Invoked (Inl e)] w'"
    and abortedAfter: "\<And>i b w e w'. int i < maxAttempts options
        \<Longrightarrow> \<not> signalAborted (signal options) w \<Longrightarrow> fn w = (Inl e, w')
        \<Longrightarrow> canRetry options e \<Longrightarrow> signalAborted (signal options) w'
        \<Longrightarrow> P i b w (Inl (AbortError ''Retry operation aborted'')) [Invoked (Inl e)] w'"
    and sleepAborted: "\<And>i b w e w1 a evs w'. int i < maxAttempts options
        \<Longrightarrow> \<not> signalAborted (signal options) w \<Longrightarrow> fn w = (Inl e, w1)
        \<Longrightarrow> canRetry options e \<Longrightarrow> \<not> signalAborted (signal options) w1
        \<Longrightarrow> backOffWait b (signal options) w1 = (Inl a, evs, w')
        \<Longrightarrow> P i b w (Inl a) (Invoked (Inl e) # evs) w'"
    and typeError: "\<And>i b w e w1 u evs t w'. int i < maxAttempts options
        \<Longrightarrow> \<not> signalAborted (signal options) w \<Longrightarrow> fn w = (Inl e, w1)
        \<Longrightarrow> canRetry options e \<Longrightarrow> \<not> signalAborted (signal options) w1
        \<Longrightarrow> backOffWait b (signal options) w1 = (Inr u, evs, w')
        \<Longrightarrow> nextBackOff options i b = Inl t
        \<Longrightarrow> P i b w (Inl t) (Invoked (Inl e) # evs) w'"
    and continue: "\<And>i b w e w1 u evs w2 b' r tr2 w'. int i < maxAttempts options
        \<Longrightarrow> \<not> signalAborted (signal options) w \<Longrightarrow> fn w = (Inl e, w1)
        \<Longrightarrow> canRetry options e \<Longrightarrow> \<not> signalAborted (signal options) w1
        \<Longrightarrow> backOffWait b (signal options) w1 = (Inr u, evs, w2)
        \<Longrightarrow> nextBackOff options i b = Inr b'
        \<Longrightarrow> retryLoop options fn (i + 1) b' w2 = (r, tr2, w')
        \<Longrightarrow> P (i + 1) b' w2 r tr2 w'
        \<Longrightarrow> P i b w r (Invoked (Inl e) # evs @ tr2) w'"
  shows "P i b w r tr w'"
  using run
proof (induction "nat (maxAttempts options + 1 - int i)" arbitrary: i b w r tr w'
    rule: less_induct)
  case less
  from less.prems show ?case
  proof (cases rule: retryLoop_cases)
    case finished
    then show ?thesis using assms(2) by simp
  next
    case aborted
    then show ?thesis using assms(3) by simp
  next
    case (success v)
    then show ?thesis using assms(4) by simp
  next
    case (exhausted e)
    then show ?thesis using assms(5) [of i w e w' b] by simp
  next
    case (rejected e)
    then show ?thesis using assms(6) by simp
  next
    case (abortedAfter e)
    then show ?thesis using assms(7) by simp
  next
    case (sleepAborted e w1 a evs)
    then show ?thesis using assms(8) by simp
  next
    case (typeError e w1 u evs t)
    then show ?thesis using assms(9) by simp
  next
    case (continue e w1 u evs w2 b' tr2)
    have "nat (maxAttempts options + 1 - int (i + 1)) < nat (maxAttempts options + 1 - int i)"
      using continue(1) by simp
    then have "P (i + 1) b' w2 r tr2 w'"
      using continue(8) by (rule less.hyps)
    with continue show ?thesis using assms(10) by simp
  qed
qed

lemma retryLoop_invocations:
  "retryLoop options fn i b w = (r, tr, w') \<Longrightarrow>
     invocations tr \<le> nat (maxAttempts options + 1 - int i)"
proof (induction rule: retryLoop_run_induct)
  case (sleepAborted i b w e w1 a evs w')
  then show ?case by (simp add: backOffWait_counts)
next
  case (typeError i b w e w1 u evs t w')
  then show ?case by (simp add: backOffWait_counts)
next
  case (continue i b w e w1 u evs w2 b' r tr2 w')
  then show ?case by (simp add: backOffWait_counts invocations_append)
qed simp_all

section \<open>What a run's trace says about its result\<close>

lemma outcomes_step:
  "backOffWait b sig w = (r, evs, w') \<Longrightarrow> outcomes (Invoked x # evs @ tr2) = x # outcomes tr2"
  by (simp add: outcomes_append backOffWait_counts)

lemma retryLoop_exhausted:
  "retryLoop options fn i b w = (r, tr, w') \<Longrightarrow> int (i + k) = maxAttempts options \<Longrightarrow>
   k < length (outcomes tr) \<Longrightarrow> outcomes tr ! k = Inl e \<Longrightarrow>
   r = (if reraise options = Some True then Inl e
        else Inl (MaxAttemptsError e (nat (maxAttempts options))))"
proof (induction arbitrary: k rule: retryLoop_run_induct)
  case (exhausted i b w e' w')
  then have "k = 0" by simp
  with exhausted show ?case by auto
next
  case (sleepAborted i b w e' w1 a evs w')
  from sleepAborted.hyps(6) have "outcomes evs = []" by (rule backOffWait_counts)
  with sleepAborted show ?case by simp
next
  case (typeError i b w e' w1 u evs t w')
  from typeError.hyps(6) have "outcomes evs = []" by (rule backOffWait_counts)
  with typeError show ?case by simp
next
  case (continue i b w e' w1 u evs w2 b' r tr2 w')
  from continue.prems continue.hyps(1) obtain k' where k: "k = Suc k'"
    by (cases k) auto
  with continue.prems outcomes_step [OF continue.hyps(6)]
  have "k' < length (outcomes tr2)" "outcomes tr2 ! k' = Inl e" "int (i + 1 + k') = maxAttempts options"
    by simp_all
  then show ?case using continue.IH [of k'] by simp
qed simp_all

lemma retryLoop_rejected:
  "retryLoop options fn i b w = (r, tr, w') \<Longrightarrow> int (i + k) < maxAttempts options \<Longrightarrow>
   k < length (outcomes tr) \<Longrightarrow> outcomes tr ! k = Inl e \<Longrightarrow> \<not> canRetry options e \<Longrightarrow>
   r = Inl e \<and> invocations tr = Suc k \<and> tr \<noteq> [] \<and> last tr = Invoked (Inl e)"
proof (induction arbitrary: k rule: retryLoop_run_induct)
  case (sleepAborted i b w e' w1 a evs w')
  from sleepAborted.hyps(6) have "outcomes evs = []" by (rule backOffWait_counts)
  with sleepAborted show ?case by simp
next
  case (typeError i b w e' w1 u evs t w')
  from typeError.hyps(6) have "outcomes evs = []" by (rule backOffWait_counts)
  with typeError show ?case by simp
next
  case (continue i b w e' w1 u evs w2 b' r tr2 w')
  from continue.prems continue.hyps(4,6) obtain k' where k: "k = Suc k'"
    using outcomes_step [OF continue.hyps(6)] by (cases k) auto
  with continue.prems outcomes_step [OF continue.hyps(6)]
  have "k' < length (outcomes tr2)" "outcomes tr2 ! k' = Inl e" "int (i + 1 + k') < maxAttempts options"
    by simp_all
  with continue.prems(4) have "r = Inl e \<and> invocations tr2 = Suc k' \<and> tr2 \<noteq> [] \<and> last tr2 = Invoked (Inl e)"
    using continue.IH [of k'] by simp
  with k backOffWait_counts(1) [OF continue.hyps(6)] show ?case
    by (simp add: invocations_append)
qed auto


lemma retryLoop_slept:
  "retryLoop options fn i b w = (r, tr, w') \<Longrightarrow> Slept ms w1 x \<in> set tr \<Longrightarrow>
   \<not> signalAborted (signal options) w1 \<and> x = fst (sleepWithAbort ms (signal options) w1)"
proof (induction rule: retryLoop_run_induct)
  case (sleepAborted i b w e w0 a evs w')
  from sleepAborted.prems have "Slept ms w1 x \<in> set evs" by simp
  from backOffWait_slept [OF sleepAborted.hyps(6) this] sleepAborted.hyps(5)
  show ?case by simp
next
  case (typeError i b w e w0 u evs t w')
  from typeError.prems have "Slept ms w1 x \<in> set evs" by simp
  from backOffWait_slept [OF typeError.hyps(6) this] typeError.hyps(5)
  show ?case by simp
next
  case (continue i b w e w0 u evs w2 b' r tr2 w')
  from continue.prems have "Slept ms w1 x \<in> set evs \<or> Slept ms w1 x \<in> set tr2" by auto
  then show ?case
  proof
    assume "Slept ms w1 x \<in> set evs"
    from backOffWait_slept [OF continue.hyps(6) this] continue.hyps(5)
    show ?thesis by simp
  next
    assume "Slept ms w1 x \<in> set tr2"
    then show ?thesis by (rule continue.IH)
  qed
qed simp_all

lemma retryLoop_interrupted:
  "retryLoop options fn i b w = (r, tr, w') \<Longrightarrow> Slept ms w1 (Inl a) \<in> set tr \<Longrightarrow>
   r = Inl (AbortError ''Retry operation aborted'') \<and> last tr = Slept ms w1 (Inl a)
   \<and> w' = snd (sleepWithAbort ms (signal options) w1)"
proof (induction rule: retryLoop_run_induct)
  case (sleepAborted i b w e w0 a' evs w')
  from sleepAborted.prems have in_evs: "Slept ms w1 (Inl a) \<in> set evs" by simp
  from backOffWait_slept [OF sleepAborted.hyps(6) in_evs]
    backOffWait_events [OF sleepAborted.hyps(6)] backOffWait_result [OF sleepAborted.hyps(6)]
    in_evs
  show ?case by auto
next
  case (typeError i b w e w0 u evs t w')
  from backOffWait_events [OF typeError.hyps(6)] typeError.prems
  show ?case by auto
next
  case (continue i b w e w0 u evs w2 b' r tr2 w')
  from backOffWait_events [OF continue.hyps(6)] continue.prems
  have "Slept ms w1 (Inl a) \<in> set tr2" by auto
  with continue.IH have "r = Inl (AbortError ''Retry operation aborted'')"
    "last tr2 = Slept ms w1 (Inl a)" "tr2 \<noteq> []"
    "w' = snd (sleepWithAbort ms (signal options) w1)" by auto
  then show ?case by simp
qed simp_all

lemma retryLoop_raised:
  "retryLoop options fn i b w = (r, tr, w') \<Longrightarrow> r = Inl x \<Longrightarrow> r \<notin> set (outcomes tr) \<Longrightarrow>
   x = AbortError ''Retry operation aborted''
   \<or> (\<exists>e. x = MaxAttemptsError e (nat (maxAttempts options)) \<and> 0 \<le> maxAttempts options
          \<and> outcomes tr \<noteq> [] \<and> last (outcomes tr) = Inl e
          \<and> int (i + invocations tr) = maxAttempts options + 1)
   \<or> is_Thrown x"
proof (induction rule: retryLoop_run_induct)
  case (exhausted i b w e w')
  then show ?case by (auto split: if_splits)
next
  case (sleepAborted i b w e w1 a evs w')
  from backOffWait_result [OF sleepAborted.hyps(6)] sleepAborted.prems
  show ?case by simp
next
  case (typeError i b w e w1 u evs t w')
  then show ?case by (auto simp: nextBackOff_def split: if_splits option.splits)
next
  case (continue i b w e w1 u evs w2 b' r tr2 w')
  note oc = outcomes_step [OF continue.hyps(6), of "Inl e" tr2]
  from continue.prems oc have "r \<notin> set (outcomes tr2)" by simp
  from continue.IH [OF continue.prems(1) this] oc backOffWait_counts(1) [OF continue.hyps(6)]
  show ?case by (auto simp: invocations_append)
qed simp_all

lemma digit_props:
  assumes "d < 10"
  shows "digitValue (digit d) = d" and "digit d \<in> set ''0123456789''"
    and "(digit d = CHR ''0'') = (d = 0)"
proof -
  from assms have "d = 0 \<or> d = 1 \<or> d = 2 \<or> d = 3 \<or> d = 4 \<or> d = 5 \<or> d = 6 \<or> d = 7
      \<or> d = 8 \<or> d = 9" by arith
  then show "digitValue (digit d) = d" and "digit d \<in> set ''0123456789''"
    and "(digit d = CHR ''0'') = (d = 0)"
    by (auto simp: digit_def digitValue_def)
qed

lemma decimalValue_snoc: "decimalValue (ds @ [c]) = 10 * decimalValue ds + digitValue c"
  by (simp add: decimalValue_def)

lemma show_nat_nonempty: "show_nat n \<noteq> []"
  by (subst show_nat.simps) simp

lemma show_nat_digits: "list_all (\<lambda>c. c \<in> set ''0123456789'') (show_nat n)"
proof (induction n rule: show_nat.induct)
  case (1 n)
  show ?case
  proof (cases "n < 10")
    case True
    then show ?thesis using digit_props(2) [of n] by (subst show_nat.simps) simp
  next
    case False
    with 1 digit_props(2) [of "n mod 10"] show ?thesis by (subst show_nat.simps) simp
  qed
qed

lemma show_nat_value: "decimalValue (show_nat n) = n"
proof (induction n rule: show_nat.induct)
  case (1 n)
  show ?case
  proof (cases "n < 10")
    case True
    then show ?thesis using digit_props(1) [of n]
      by (subst show_nat.simps) (simp add: decimalValue_def)
  next
    case False
    with 1 digit_props(1) [of "n mod 10"] show ?thesis
      by (subst show_nat.simps) (simp add: decimalValue_snoc)
  qed
qed

lemma show_nat_leading: "n \<noteq> 0 \<Longrightarrow> hd (show_nat n) \<noteq> CHR ''0''"
proof (induction n rule: show_nat.induct)
  case (1 n)
  show ?case
  proof (cases "n < 10")
    case True
    with 1(2) show ?thesis using digit_props(3) [of n] by (subst show_nat.simps) simp
  next
    case False
    then have "n div 10 \<noteq> 0" by simp
    with 1(1) False have "hd (show_nat (n div 10)) \<noteq> CHR ''0''" by simp
    with False show_nat_nonempty [of "n div 10"] show ?thesis
      by (subst show_nat.simps) simp
  qed
qed

lemma show_nat_decimal: "isDecimalOf (show_nat n) n"
proof (cases "n = 0")
  case True
  then show ?thesis
    by (simp add: isDecimalOf_def show_nat.simps digit_def decimalValue_def digitValue_def)
next
  case False
  with show_nat_nonempty [of n] show_nat_digits [of n] show_nat_value [of n]
    show_nat_leading [of n]
  show ?thesis unfolding isDecimalOf_def by blast
qed

lemma createRetryHandler_keeps:
  "maxAttempts (createRetryHandler options) = maxAttempts options"
  "signal (createRetryHandler options) = signal options"
  by (simp_all add: createRetryHandler_def setExponentialBackOffPolicyDefault_def)

section \<open>The attempt budget\<close>

text \<open>
  Claim C1. One call of the handler invokes the wrapped operation at most
  \<open>maxAttempts + 1\<close> times, whatever the operation returns or throws, whatever the
  classifier answers and whenever the signal is aborted. (A negative \<open>maxAttempts\<close>,
  which the specification's policies exclude, gives no invocation at all.)
\<close>

theorem invocations_within_budget:
  "(0 \<le> maxAttempts options \<longrightarrow>
      int (invocations (trace (retryAsync options fn w))) \<le> maxAttempts options + 1)
   \<and> (maxAttempts options < 0 \<longrightarrow> invocations (trace (retryAsync options fn w)) = 0)"
proof -
  obtain r tr w' where run: "retryLoop options fn 0 (backOff options) w = (r, tr, w')"
    by (cases "retryLoop options fn 0 (backOff options) w")
  from retryLoop_invocations [OF run]
  show ?thesis by (auto simp: retryAsync_def trace_def run)
qed

theorem invocations_within_budget_witness:
  "0 \<le> maxAttempts (onlyMaxAttempts 2)
   \<and> invocations (trace (retryAsync (onlyMaxAttempts 2) (alwaysFails ''rejected'') quietWorld)) = 3
   \<and> int (invocations (trace (retryAsync (onlyMaxAttempts 2) (alwaysFails ''rejected'') quietWorld)))
       \<le> maxAttempts (onlyMaxAttempts 2) + 1
   \<and> maxAttempts (onlyMaxAttempts (- 3)) < 0
   \<and> invocations (trace (retryAsync (onlyMaxAttempts (- 3)) (alwaysFails ''rejected'') quietWorld))
       = 0"
proof -
  have 1: "0 \<le> maxAttempts (onlyMaxAttempts 2)" "maxAttempts (onlyMaxAttempts (- 3)) < 0"
    by (simp_all add: onlyMaxAttempts_def)
  have 2: "invocations (trace (retryAsync (onlyMaxAttempts 2) (alwaysFails ''rejected'') quietWorld))
      = 3"
    by (simp add: run_defs onlyMaxAttempts_def trace_def alwaysFails_def quietWorld_def)
  from invocations_within_budget [of "onlyMaxAttempts 2" "alwaysFails ''rejected''" quietWorld]
    invocations_within_budget [of "onlyMaxAttempts (- 3)" "alwaysFails ''rejected''" quietWorld]
    1 2
  show ?thesis by simp
qed

section \<open>Exhaustion and classification\<close>

text \<open>
  Claim C2. When the attempt of index \<open>maxAttempts\<close> (the last the budget allows) fails
  with \<open>e\<close>, the call fails with \<open>e\<close> itself if \<open>reraise\<close> is set and otherwise with a
  \<open>MaxAttemptsError\<close> whose \<open>originalError\<close> is \<open>e\<close> and whose \<open>retryCount\<close> is
  \<open>maxAttempts\<close>. Nothing is assumed of \<open>canRetry\<close>: the classifier is not asked.
\<close>

theorem exhaustion_precedes_classification:
  assumes "retryAsync options fn w = (r, tr, w')"
    and "0 \<le> maxAttempts options"
    and "nat (maxAttempts options) < length (outcomes tr)"
    and "outcomes tr ! nat (maxAttempts options) = Inl e"
  shows "r = (if reraise options = Some True then Inl e
              else Inl (MaxAttemptsError e (nat (maxAttempts options))))"
  using assms retryLoop_exhausted [of options fn 0 "backOff options" w r tr w' "nat (maxAttempts options)" e]
  by (simp add: retryAsync_def)

theorem exhaustion_precedes_classification_witness:
  "retryAsync (syntaxErrorsOnly 1)
       (scripted [Inl (SyntaxError ''I failed!''), Inl (Error ''rejected'')]) quietWorld
     = (Inl (MaxAttemptsError (Error ''rejected'') 1),
        [Invoked (Inl (SyntaxError ''I failed!'')), Invoked (Inl (Error ''rejected''))],
        quietWorld\<lparr>mem := 2\<rparr>)
   \<and> \<not> canRetry (syntaxErrorsOnly 1) (Error ''rejected'')
   \<and> reraise (syntaxErrorsOnly 1) \<noteq> Some True
   \<and> nat (maxAttempts (syntaxErrorsOnly 1)) = 1"
proof -
  have run: "retryAsync (syntaxErrorsOnly 1)
       (scripted [Inl (SyntaxError ''I failed!''), Inl (Error ''rejected'')]) quietWorld
     = (Inl (MaxAttemptsError (Error ''rejected'') 1),
        [Invoked (Inl (SyntaxError ''I failed!'')), Invoked (Inl (Error ''rejected''))],
        quietWorld\<lparr>mem := 2\<rparr>)"
    by (simp add: run_defs syntaxErrorsOnly_def onlyMaxAttempts_def scripted_def quietWorld_def
        SyntaxError_def Error_def)
  have rej: "\<not> canRetry (syntaxErrorsOnly 1) (Error ''rejected'')"
    by (simp add: run_defs syntaxErrorsOnly_def onlyMaxAttempts_def Error_def)
  from exhaustion_precedes_classification [OF run, of "Error ''rejected''"] run rej
  show ?thesis by (simp add: syntaxErrorsOnly_def onlyMaxAttempts_def)
qed

text \<open>
  Claim C5. When an attempt of index \<open>k < maxAttempts\<close> fails with an error \<open>e\<close> that
  \<open>canRetry\<close> rejects, the call fails with \<open>e\<close> itself, whatever \<open>reraise\<close> says; that
  invocation is the last event of the run, so no attempt and no sleep follows it.
\<close>

theorem rejected_error_fails_at_once:
  assumes "retryAsync options fn w = (r, tr, w')"
    and "k < length (outcomes tr)"
    and "int k < maxAttempts options"
    and "outcomes tr ! k = Inl e"
    and "\<not> canRetry options e"
  shows "r = Inl e \<and> invocations tr = Suc k \<and> last tr = Invoked (Inl e)"
  using assms retryLoop_rejected [of options fn 0 "backOff options" w r tr w' k e]
  by (simp add: retryAsync_def)

theorem rejected_error_fails_at_once_witness:
  "retryAsync ((syntaxErrorsOnly 2)\<lparr>reraise := Some True, backOff := Some 1000\<rparr>)
       (scripted [Inl (SyntaxError ''I failed!''), Inl (Error ''I failed!'')]) quietWorld
     = (Inl (Error ''I failed!''),
        [Invoked (Inl (SyntaxError ''I failed!'')), Slept 1000 (quietWorld\<lparr>mem := 1\<rparr>) (Inr ()),
         Invoked (Inl (Error ''I failed!''))],
        quietWorld\<lparr>clock := 1000, mem := 2\<rparr>)
   \<and> \<not> canRetry ((syntaxErrorsOnly 2)\<lparr>reraise := Some True, backOff := Some 1000\<rparr>)
         (Error ''I failed!'')
   \<and> invocations [Invoked (Inl (SyntaxError ''I failed!'')), Slept 1000 (quietWorld\<lparr>mem := 1\<rparr>) (Inr ()),
         Invoked (Inl (Error ''I failed!''))] = Suc 1"
proof -
  let ?options = "(syntaxErrorsOnly 2)\<lparr>reraise := Some True, backOff := Some 1000\<rparr>"
  let ?tr = "[Invoked (Inl (SyntaxError ''I failed!'')), Slept 1000 (quietWorld\<lparr>mem := 1\<rparr>) (Inr ()),
         Invoked (Inl (Error ''I failed!''))]"
  have run: "retryAsync ?options
       (scripted [Inl (SyntaxError ''I failed!''), Inl (Error ''I failed!'')]) quietWorld
     = (Inl (Error ''I failed!''), ?tr, quietWorld\<lparr>clock := 1000, mem := 2\<rparr>)"
    by (simp add: run_defs syntaxErrorsOnly_def onlyMaxAttempts_def scripted_def quietWorld_def
        SyntaxError_def Error_def)
  have rej: "\<not> canRetry ?options (Error ''I failed!'')"
    by (simp add: run_defs syntaxErrorsOnly_def onlyMaxAttempts_def Error_def)
  have "1 < length (outcomes ?tr)" "int 1 < maxAttempts ?options"
    "outcomes ?tr ! 1 = Inl (Error ''I failed!'')"
    by (simp_all add: syntaxErrorsOnly_def onlyMaxAttempts_def)
  from rejected_error_fails_at_once [OF run this rej] run rej
  show ?thesis by simp
qed

section \<open>Cancellation\<close>

text \<open>
  Claim C6. With the signal aborted before the first attempt the call fails with
  \<open>AbortError\<close> and the operation is never invoked. When the abort of the signal falls
  due before the timer of a sleep, \<^verbatim>\<open>sleepWithAbort\<close> rejects with \<open>AbortError\<close> before
  the timer's delay has passed and leaves the signal aborted. So does the handler: if
  a first attempt fails with a retryable error and the abort falls due during the
  backoff wait that follows, the call fails with \<open>AbortError\<close> after that one
  invocation and that one cut-short wait; and whichever wait of a run the abort falls
  due in, that wait is rejected, it is the last event of the run, the call fails with
  \<open>AbortError\<close>, and less than the timer's delay has passed since the wait began.
\<close>

theorem cancellation_yields_AbortError:
  "(0 \<le> maxAttempts options \<and> signalAborted (signal options) w \<longrightarrow>
      retryAsync options fn w = (Inl (AbortError ''Retry operation aborted''), [], w))
   \<and> (\<not> signalAborted (Some s) w \<and> abortAt w s = Some t \<and> t < clock w + timerDelay ms \<longrightarrow>
      fst (sleepWithAbort ms (Some s) w) = Inl (AbortError ''Retry operation aborted'')
      \<and> clock (snd (sleepWithAbort ms (Some s) w)) - clock w < timerDelay ms
      \<and> signalAborted (Some s) (snd (sleepWithAbort ms (Some s) w)))
   \<and> (0 < maxAttempts options \<and> \<not> signalAborted (signal options) w
        \<and> fn w = (Inl e, w1) \<and> canRetry options e
        \<and> backOff options = Some ms \<and> ms \<noteq> 0
        \<and> signal options = Some s \<and> \<not> aborted w1 s
        \<and> abortAt w1 s = Some t \<and> t < clock w1 + timerDelay ms \<longrightarrow>
      retryAsync options fn w
        = (Inl (AbortError ''Retry operation aborted''),
           [Invoked (Inl e), Slept ms w1 (Inl (AbortError ''Retry operation aborted''))],
           snd (sleepWithAbort ms (Some s) w1)))
   \<and> (Slept ms' w2 x \<in> set (trace (retryAsync options fn w))
        \<and> signal options = Some s \<and> abortAt w2 s = Some t \<and> t < clock w2 + timerDelay ms' \<longrightarrow>
      x = Inl (AbortError ''Retry operation aborted'')
      \<and> result (retryAsync options fn w) = Inl (AbortError ''Retry operation aborted'')
      \<and> last (trace (retryAsync options fn w)) = Slept ms' w2 x
      \<and> clock (finalWorld (retryAsync options fn w)) - clock w2 < timerDelay ms')"
proof (intro conjI impI)
  assume "0 \<le> maxAttempts options \<and> signalAborted (signal options) w"
  then show "retryAsync options fn w = (Inl (AbortError ''Retry operation aborted''), [], w)"
    by (simp add: retryAsync_def retryLoop.simps)
next
  assume a: "\<not> signalAborted (Some s) w \<and> abortAt w s = Some t \<and> t < clock w + timerDelay ms"
  have "0 < timerDelay ms" by (simp add: timerDelay_def)
  with a show "fst (sleepWithAbort ms (Some s) w) = Inl (AbortError ''Retry operation aborted'')"
    and "clock (snd (sleepWithAbort ms (Some s) w)) - clock w < timerDelay ms"
    and "signalAborted (Some s) (snd (sleepWithAbort ms (Some s) w))"
    by (auto simp: sleepWithAbort_def signalAborted_def)
next
  assume a: "0 < maxAttempts options \<and> \<not> signalAborted (signal options) w
        \<and> fn w = (Inl e, w1) \<and> canRetry options e
        \<and> backOff options = Some ms \<and> ms \<noteq> 0
        \<and> signal options = Some s \<and> \<not> aborted w1 s
        \<and> abortAt w1 s = Some t \<and> t < clock w1 + timerDelay ms"
  then obtain w3 where sw: "sleepWithAbort ms (Some s) w1
      = (Inl (AbortError ''Retry operation aborted''), w3)"
    by (auto simp: sleepWithAbort_def signalAborted_def)
  with a have "retryAsync options fn w
        = (Inl (AbortError ''Retry operation aborted''),
           [Invoked (Inl e), Slept ms w1 (Inl (AbortError ''Retry operation aborted''))], w3)"
    by (auto simp: retryAsync_def retryLoop.simps [of options fn 0] backOffWait_def
        signalAborted_def)
  with sw show "retryAsync options fn w
        = (Inl (AbortError ''Retry operation aborted''),
           [Invoked (Inl e), Slept ms w1 (Inl (AbortError ''Retry operation aborted''))],
           snd (sleepWithAbort ms (Some s) w1))"
    by simp
next
  assume a: "Slept ms' w2 x \<in> set (trace (retryAsync options fn w))
        \<and> signal options = Some s \<and> abortAt w2 s = Some t \<and> t < clock w2 + timerDelay ms'"
  obtain r tr w' where run: "retryLoop options fn 0 (backOff options) w = (r, tr, w')"
    by (cases "retryLoop options fn 0 (backOff options) w")
  with a have slept: "Slept ms' w2 x \<in> set tr" by (simp add: retryAsync_def trace_def)
  have pos: "0 < timerDelay ms'" by (simp add: timerDelay_def)
  from retryLoop_slept [OF run slept] a
  have x: "x = Inl (AbortError ''Retry operation aborted'')"
    and early: "clock (snd (sleepWithAbort ms' (signal options) w2)) - clock w2 < timerDelay ms'"
    using pos by (auto simp: sleepWithAbort_def signalAborted_def)
  from retryLoop_interrupted [OF run slept [unfolded x]] x early
  show "x = Inl (AbortError ''Retry operation aborted'')"
    and "result (retryAsync options fn w) = Inl (AbortError ''Retry operation aborted'')"
    and "last (trace (retryAsync options fn w)) = Slept ms' w2 x"
    and "clock (finalWorld (retryAsync options fn w)) - clock w2 < timerDelay ms'"
    by (simp_all add: retryAsync_def trace_def result_def finalWorld_def run)
qed

theorem cancellation_yields_AbortError_witness:
  "0 \<le> maxAttempts (withSignal (onlyMaxAttempts 3))
   \<and> signalAborted (signal (withSignal (onlyMaxAttempts 3))) abortedWorld
   \<and> retryAsync (withSignal (onlyMaxAttempts 3)) (alwaysFails ''Should not be called'') abortedWorld
       = (Inl (AbortError ''Retry operation aborted''), [], abortedWorld)
   \<and> \<not> signalAborted (Some 0) (abortPendingWorld 100)
   \<and> abortAt (abortPendingWorld 100) 0 = Some 100
   \<and> timerDelay 5000 = 5000
   \<and> fst (sleepWithAbort 5000 (Some 0) (abortPendingWorld 100))
       = Inl (AbortError ''Retry operation aborted'')
   \<and> clock (snd (sleepWithAbort 5000 (Some 0) (abortPendingWorld 100))) = 100
   \<and> canRetry (withSignal ((onlyMaxAttempts 5)\<lparr>backOff := Some 5000\<rparr>)) (Error ''Failed'')
   \<and> result (retryAsync (withSignal ((onlyMaxAttempts 5)\<lparr>backOff := Some 5000\<rparr>))
         (alwaysFails ''Failed'') (abortPendingWorld 100))
       = Inl (AbortError ''Retry operation aborted'')
   \<and> trace (retryAsync (withSignal ((onlyMaxAttempts 5)\<lparr>backOff := Some 5000\<rparr>))
         (alwaysFails ''Failed'') (abortPendingWorld 100))
       = [Invoked (Inl (Error ''Failed'')),
          Slept 5000 (abortPendingWorld 100) (Inl (AbortError ''Retry operation aborted''))]
   \<and> clock (finalWorld (retryAsync (withSignal ((onlyMaxAttempts 5)\<lparr>backOff := Some 5000\<rparr>))
         (alwaysFails ''Failed'') (abortPendingWorld 100))) = 100"
proof -
  let ?o1 = "withSignal (onlyMaxAttempts 3)"
  let ?o2 = "withSignal ((onlyMaxAttempts 5)\<lparr>backOff := Some 5000\<rparr>)"
  let ?w = "abortPendingWorld 100"
  let ?abort = "AbortError ''Retry operation aborted''"
  have h1: "0 \<le> maxAttempts ?o1 \<and> signalAborted (signal ?o1) abortedWorld"
    by (simp add: withSignal_def onlyMaxAttempts_def abortedWorld_def quietWorld_def signalAborted_def)
  have d: "timerDelay 5000 = 5000" by (simp add: timerDelay_def)
  have h2: "\<not> signalAborted (Some 0) ?w \<and> abortAt ?w 0 = Some 100
      \<and> 100 < clock ?w + timerDelay 5000"
    by (simp add: d abortPendingWorld_def quietWorld_def signalAborted_def)
  have c: "clock (snd (sleepWithAbort 5000 (Some 0) ?w)) = 100"
    by (simp add: sleepWithAbort_def d abortPendingWorld_def quietWorld_def signalAborted_def)
  have h3: "0 < maxAttempts ?o2 \<and> \<not> signalAborted (signal ?o2) ?w
        \<and> alwaysFails ''Failed'' ?w = (Inl (Error ''Failed''), ?w)
        \<and> canRetry ?o2 (Error ''Failed'')
        \<and> backOff ?o2 = Some 5000 \<and> (5000::real) \<noteq> 0
        \<and> signal ?o2 = Some 0 \<and> \<not> aborted ?w 0
        \<and> abortAt ?w 0 = Some 100 \<and> 100 < clock ?w + timerDelay 5000"
    by (simp add: d withSignal_def onlyMaxAttempts_def alwaysFails_def abortPendingWorld_def
        quietWorld_def signalAborted_def canRetry_def)
  note thm1 = cancellation_yields_AbortError [where options = ?o1 and w = abortedWorld
      and fn = "alwaysFails ''Should not be called''"]
  note thm2 = cancellation_yields_AbortError [where options = ?o2 and w = ?w
      and fn = "alwaysFails ''Failed''" and s = 0 and t = 100 and ms = 5000
      and e = "Error ''Failed''" and ?w1.0 = ?w and ms' = 5000 and ?w2.0 = ?w and x = "Inl ?abort"]
  from thm1 h1 have run1: "retryAsync ?o1 (alwaysFails ''Should not be called'') abortedWorld
       = (Inl ?abort, [], abortedWorld)" by blast
  from thm2 h2 have s1: "fst (sleepWithAbort 5000 (Some 0) ?w) = Inl ?abort" by blast
  from thm2 h3 have run2: "retryAsync ?o2 (alwaysFails ''Failed'') ?w
        = (Inl ?abort, [Invoked (Inl (Error ''Failed'')), Slept 5000 ?w (Inl ?abort)],
           snd (sleepWithAbort 5000 (Some 0) ?w))" by blast
  then have "Slept 5000 ?w (Inl ?abort) \<in> set (trace (retryAsync ?o2 (alwaysFails ''Failed'') ?w))"
    by (simp add: trace_def)
  with thm2 h3 have "clock (finalWorld (retryAsync ?o2 (alwaysFails ''Failed'') ?w)) - clock ?w
      < timerDelay 5000" by blast
  with h1 h2 h3 d c run1 s1 run2 show ?thesis
    by (simp add: trace_def result_def finalWorld_def)
qed

section \<open>The errors the handler creates\<close>

text \<open>
  Claim C10. An error the call fails with and the operation did not throw is created by
  the handler. If it is an \<open>AbortError\<close>, its message is \<^verbatim>\<open>Retry operation aborted\<close>, its
  name \<^verbatim>\<open>AbortError\<close> and its code \<^verbatim>\<open>ABORT_ERR\<close>. If it is a \<open>MaxAttemptsError\<close>, its
  code is \<^verbatim>\<open>429\<close>, its \<open>originalError\<close> is the error of the last attempt, its
  \<open>retryCount\<close> is the index of that attempt, which is \<open>maxAttempts\<close>, and its message
  is \<^verbatim>\<open>Max retry reached: \<close>, the decimal numeral of \<open>retryCount\<close>,
  \<^verbatim>\<open>, original error: \<close> and the message of \<open>originalError\<close>.
\<close>

theorem raised_errors_fields:
  assumes "retryAsync options fn w = (Inl x, tr, w')"
    and "Inl x \<notin> set (outcomes tr)"
  shows "(is_AbortError x \<longrightarrow>
            message x = ''Retry operation aborted'' \<and> name x = ''AbortError''
            \<and> code x = Some ''ABORT_ERR'')
       \<and> (is_MaxAttemptsError x \<longrightarrow>
            code x = Some ''429'' \<and> outcomes tr \<noteq> []
            \<and> Inl (originalError x) = last (outcomes tr)
            \<and> int (retryCount x) = maxAttempts options
            \<and> Suc (retryCount x) = invocations tr
            \<and> message x = ''Max retry reached: '' @ show_nat (retryCount x)
                 @ '', original error: '' @ message (originalError x)
            \<and> (\<exists>ds. isDecimalOf ds (retryCount x)
                 \<and> message x = ''Max retry reached: '' @ ds
                      @ '', original error: '' @ message (originalError x)))"
proof -
  from assms(1) have run: "retryLoop options fn 0 (backOff options) w = (Inl x, tr, w')"
    by (simp add: retryAsync_def)
  have "\<exists>ds. isDecimalOf ds k
      \<and> message (MaxAttemptsError e k) = ''Max retry reached: '' @ ds
           @ '', original error: '' @ message e" for e k
    using show_nat_decimal [of k] by auto
  with retryLoop_raised [OF run refl assms(2)]
  show ?thesis by (elim disjE exE) auto
qed

theorem raised_errors_fields_witness:
  "retryAsync (withSignal (onlyMaxAttempts 3)) (alwaysFails ''Should not be called'') abortedWorld
       = (Inl (AbortError ''Retry operation aborted''), [], abortedWorld)
   \<and> message (AbortError ''Retry operation aborted'') = ''Retry operation aborted''
   \<and> name (AbortError ''Retry operation aborted'') = ''AbortError''
   \<and> code (AbortError ''Retry operation aborted'') = Some ''ABORT_ERR''
   \<and> retryAsync (onlyMaxAttempts 12) (alwaysFails ''rejected'') quietWorld
       = (Inl (MaxAttemptsError (Error ''rejected'') 12),
          replicate 13 (Invoked (Inl (Error ''rejected''))), quietWorld)
   \<and> code (MaxAttemptsError (Error ''rejected'') 12) = Some ''429''
   \<and> message (MaxAttemptsError (Error ''rejected'') 12)
       = ''Max retry reached: 12, original error: rejected''
   \<and> isDecimalOf ''12'' 12 \<and> \<not> isDecimalOf ''2'' 12 \<and> \<not> isDecimalOf ''012'' 12"
proof -
  have run1: "retryAsync (withSignal (onlyMaxAttempts 3)) (alwaysFails ''Should not be called'')
        abortedWorld = (Inl (AbortError ''Retry operation aborted''), [], abortedWorld)"
    by (simp add: run_defs withSignal_def onlyMaxAttempts_def abortedWorld_def quietWorld_def)
  have run2: "retryAsync (onlyMaxAttempts 12) (alwaysFails ''rejected'') quietWorld
       = (Inl (MaxAttemptsError (Error ''rejected'') 12),
          replicate 13 (Invoked (Inl (Error ''rejected''))), quietWorld)"
    by (simp add: retryAsync_def retryLoop.simps signalAborted_def canRetry_def backOffWait_def
        nextBackOff_def prepend_def onlyMaxAttempts_def alwaysFails_def quietWorld_def
        eval_nat_numeral)
  have fresh1: "Inl (AbortError ''Retry operation aborted'') \<notin> set (outcomes [])"
    by simp
  have fresh2: "Inl (MaxAttemptsError (Error ''rejected'') 12)
       \<notin> set (outcomes (replicate 13 (Invoked (Inl (Error ''rejected'')))))"
    by (simp add: Error_def eval_nat_numeral)
  have dec: "isDecimalOf ''12'' 12 \<and> \<not> isDecimalOf ''2'' 12 \<and> \<not> isDecimalOf ''012'' 12"
    by (simp add: isDecimalOf_def decimalValue_def digitValue_def)
  have msg: "message (MaxAttemptsError (Error ''rejected'') 12)
       = ''Max retry reached: 12, original error: rejected''"
    by (simp add: Error_def show_nat.simps digit_def)
  from raised_errors_fields [OF run1 fresh1] raised_errors_fields [OF run2 fresh2] run1 run2
    dec msg
  show ?thesis by simp
qed

section \<open>The classifier\<close>

text \<open>
  Claim C4. \<open>canRetry\<close> forbids the retry when a \<open>doRetry\<close> predicate is configured
  and rejects the error, whatever the type filter says; otherwise it forbids it when a
  non-empty list of error types is configured and the error is an instance of none;
  otherwise it permits it, in particular with an absent or empty list.
\<close>

theorem canRetry_order:
  "((\<exists>p. doRetry options = Some p \<and> \<not> p e) \<longrightarrow> \<not> canRetry options e)
   \<and> (\<not> (\<exists>p. doRetry options = Some p \<and> \<not> p e)
        \<and> (\<exists>ts. value_opt options = Some ts \<and> ts \<noteq> [] \<and> (\<forall>t \<in> set ts. \<not> instanceof e t))
      \<longrightarrow> \<not> canRetry options e)
   \<and> (\<not> (\<exists>p. doRetry options = Some p \<and> \<not> p e)
        \<and> \<not> (\<exists>ts. value_opt options = Some ts \<and> ts \<noteq> [] \<and> (\<forall>t \<in> set ts. \<not> instanceof e t))
      \<longrightarrow> canRetry options e)
   \<and> (\<not> (\<exists>p. doRetry options = Some p \<and> \<not> p e)
        \<and> (value_opt options = None \<or> value_opt options = Some [])
      \<longrightarrow> canRetry options e)"
  by (auto simp: canRetry_def list_ex_iff split: option.splits)

theorem canRetry_order_witness:
  "\<not> canRetry ((syntaxErrorsOnly 3)\<lparr>doRetry := Some only429\<rparr>) (SyntaxError ''Error: 500'')
   \<and> instanceof (SyntaxError ''Error: 500'') ''SyntaxError''
   \<and> \<not> canRetry ((syntaxErrorsOnly 3)\<lparr>doRetry := Some only429\<rparr>) (Error ''Error: 429'')
   \<and> canRetry ((syntaxErrorsOnly 3)\<lparr>doRetry := Some only429\<rparr>) (SyntaxError ''Error: 429'')
   \<and> canRetry ((onlyMaxAttempts 3)\<lparr>doRetry := Some only429, value_opt := Some []\<rparr>)
        (Error ''Error: 429'')"
proof -
  let ?o = "(syntaxErrorsOnly 3)\<lparr>doRetry := Some only429\<rparr>"
  let ?o' = "(onlyMaxAttempts 3)\<lparr>doRetry := Some only429, value_opt := Some []\<rparr>"
  have 1: "\<exists>p. doRetry ?o = Some p \<and> \<not> p (SyntaxError ''Error: 500'')"
    by (simp add: syntaxErrorsOnly_def onlyMaxAttempts_def only429_def SyntaxError_def)
  have 2: "\<not> (\<exists>p. doRetry ?o = Some p \<and> \<not> p (Error ''Error: 429''))
      \<and> (\<exists>ts. value_opt ?o = Some ts \<and> ts \<noteq> [] \<and> (\<forall>t \<in> set ts. \<not> instanceof (Error ''Error: 429'') t))"
    by (simp add: syntaxErrorsOnly_def onlyMaxAttempts_def only429_def Error_def instanceof_def)
  have 3: "\<not> (\<exists>p. doRetry ?o = Some p \<and> \<not> p (SyntaxError ''Error: 429''))
      \<and> \<not> (\<exists>ts. value_opt ?o = Some ts \<and> ts \<noteq> [] \<and> (\<forall>t \<in> set ts. \<not> instanceof (SyntaxError ''Error: 429'') t))"
    by (simp add: syntaxErrorsOnly_def onlyMaxAttempts_def only429_def SyntaxError_def instanceof_def)
  have 4: "\<not> (\<exists>p. doRetry ?o' = Some p \<and> \<not> p (Error ''Error: 429''))
      \<and> (value_opt ?o' = None \<or> value_opt ?o' = Some [])"
    by (simp add: onlyMaxAttempts_def only429_def Error_def)
  have 5: "instanceof (SyntaxError ''Error: 500'') ''SyntaxError''"
    by (simp add: instanceof_def SyntaxError_def)
  from canRetry_order [of ?o "SyntaxError ''Error: 500''"] canRetry_order [of ?o "Error ''Error: 429''"]
    canRetry_order [of ?o "SyntaxError ''Error: 429''"] canRetry_order [of ?o' "Error ''Error: 429''"]
    1 2 3 4 5
  show ?thesis by blast
qed

section \<open>The exponential schedule\<close>

text \<open>
  Claim C3 says that the delay before retry \<open>i\<close> is
  \<open>min (baseDelay * multiplier ^ i) maxInterval\<close>. On the exponential example of the
  README, with an operation that always fails, the handler sleeps 1000, 1000 and 3000
  milliseconds, where the formula (and the README's comment) gives 1000, 3000 and 9000:
  the local \<^verbatim>\<open>backOff\<close> is multiplied by \<^verbatim>\<open>multiplier ^ i\<close> only after the sleep of
  attempt \<open>i\<close>, and the product starts from the running value, not from the base.
\<close>

theorem readme_exponential_sleeps:
  "sleeps (trace (withRetry readmeExponential (alwaysFails ''I failed!'') quietWorld))
     = [1000, 1000, 3000]
   \<and> map (nominalDelay_spec 1000 \<lparr>maxInterval = 10000, multiplier = 3\<rparr>) [0, 1, 2]
     = [1000, 3000, 9000]"
  by (simp add: run_defs trace_def readmeExponential_def onlyMaxAttempts_def alwaysFails_def
      quietWorld_def nominalDelay_spec_def)

section \<open>Jitter\<close>

text \<open>
  Claim C7, on the jitter modelled from the specification. With jitter enabled and the
  type \<open>Full\<close>, given or by default, the wait for a nominal delay \<open>d > 0\<close> lies in
  \<open>[0, d)\<close>, so it is strictly below \<open>d\<close>; with jitter disabled the wait is \<open>d\<close>.
\<close>

theorem full_jitter_below_nominal:
  assumes "0 \<le> u" and "u < 1" and "0 < d"
  shows "(enabled j \<and> (jitterType j = None \<or> jitterType j = Some Full) \<longrightarrow>
            0 \<le> actualWait j baseDelay maxInt p d u \<and> actualWait j baseDelay maxInt p d u < d)
       \<and> (\<not> enabled j \<longrightarrow> actualWait j baseDelay maxInt p d u = d)"
  using assms by (auto simp: actualWait_def applyJitter_def uniformIn_def)

theorem full_jitter_below_nominal_witness:
  "actualWait fullByDefault 1000 2000 1000 1000 (1 / 2) = 500
   \<and> (0::real) \<le> 500 \<and> (500::real) < 1000
   \<and> actualWait jitterOff 1000 2000 1000 1000 (1 / 2) = 1000"
proof -
  have u: "(0::real) \<le> 1 / 2" "(1 / 2 :: real) < 1" "(0::real) < 1000" by simp_all
  have j: "enabled fullByDefault \<and> (jitterType fullByDefault = None \<or> jitterType fullByDefault = Some Full)"
    "\<not> enabled jitterOff"
    by (simp_all add: fullByDefault_def jitterOff_def)
  have v: "actualWait fullByDefault 1000 2000 1000 1000 (1 / 2) = 500"
    by (simp add: actualWait_def applyJitter_def uniformIn_def fullByDefault_def)
  from full_jitter_below_nominal [OF u, of fullByDefault 1000 2000 1000]
    full_jitter_below_nominal [OF u, of jitterOff 1000 2000 1000] j v
  show ?thesis by simp
qed

section \<open>The caller's options\<close>

text \<open>
  Claim C8 says that the caller's options are never changed. Building the handler for
  \<^verbatim>\<open>{ maxAttempts: 3, backOffPolicy: ExponentialBackOffPolicy }\<close> assigns
  \<^verbatim>\<open>backOff\<close> and \<^verbatim>\<open>exponentialOption\<close> of that very object.
\<close>

theorem createRetryHandler_changes_options:
  "backOff onlyExponential = None \<and> exponentialOption onlyExponential = None
   \<and> backOff (createRetryHandler onlyExponential) = Some 1000
   \<and> exponentialOption (createRetryHandler onlyExponential)
       = Some \<lparr>maxInterval = 2000, multiplier = 2\<rparr>
   \<and> createRetryHandler onlyExponential \<noteq> onlyExponential"
proof -
  have "backOff (createRetryHandler onlyExponential) = Some 1000"
    by (simp add: createRetryHandler_def setExponentialBackOffPolicyDefault_def
        onlyExponential_def onlyMaxAttempts_def)
  moreover have "backOff onlyExponential = None"
    by (simp add: onlyExponential_def onlyMaxAttempts_def)
  moreover have "exponentialOption onlyExponential = None"
    by (simp add: onlyExponential_def onlyMaxAttempts_def)
  moreover have "exponentialOption (createRetryHandler onlyExponential)
       = Some \<lparr>maxInterval = 2000, multiplier = 2\<rparr>"
    by (simp add: createRetryHandler_def setExponentialBackOffPolicyDefault_def
        onlyExponential_def onlyMaxAttempts_def)
  ultimately show ?thesis by auto
qed

text \<open>
  Claim C8, amended. Building the handler leaves \<open>maxAttempts\<close>, \<open>backOffPolicy\<close>,
  \<open>doRetry\<close>, \<open>value\<close>, \<open>reraise\<close> and \<open>signal\<close> as the caller supplied them, and the whole
  object when the policy is not exponential. Under the exponential policy it sets an
  unset \<open>backOff\<close> to 1000, keeps a non-zero \<open>backOff\<close>, and sets \<open>exponentialOption\<close>
  to the caller's if there is one and to \<open>{maxInterval: 2000, multiplier: 2}\<close> if not.
\<close>

theorem createRetryHandler_frame:
  "maxAttempts (createRetryHandler options) = maxAttempts options
   \<and> backOffPolicy (createRetryHandler options) = backOffPolicy options
   \<and> doRetry (createRetryHandler options) = doRetry options
   \<and> value_opt (createRetryHandler options) = value_opt options
   \<and> reraise (createRetryHandler options) = reraise options
   \<and> signal (createRetryHandler options) = signal options
   \<and> (backOffPolicy options \<noteq> Some ExponentialBackOffPolicy \<longrightarrow>
        createRetryHandler options = options)
   \<and> (backOffPolicy options = Some ExponentialBackOffPolicy \<longrightarrow>
        (backOff options = None \<longrightarrow> backOff (createRetryHandler options) = Some 1000)
        \<and> (\<forall>x. backOff options = Some x \<and> x \<noteq> 0 \<longrightarrow>
               backOff (createRetryHandler options) = Some x)
        \<and> exponentialOption (createRetryHandler options)
          = (case exponentialOption options of
               None \<Rightarrow> Some \<lparr>maxInterval = 2000, multiplier = 2\<rparr>
             | Some eo \<Rightarrow> Some eo))"
  by (auto simp: createRetryHandler_def setExponentialBackOffPolicyDefault_def
      split: option.splits)

theorem createRetryHandler_frame_witness:
  "createRetryHandler (onlyMaxAttempts 2) = onlyMaxAttempts 2
   \<and> backOff (createRetryHandler readmeExponential) = Some 1000
   \<and> exponentialOption (createRetryHandler readmeExponential)
       = Some \<lparr>maxInterval = 10000, multiplier = 3\<rparr>
   \<and> backOff (createRetryHandler onlyExponential) = Some 1000
   \<and> exponentialOption (createRetryHandler onlyExponential)
       = Some \<lparr>maxInterval = 2000, multiplier = 2\<rparr>"
proof -
  have 1: "backOffPolicy (onlyMaxAttempts 2) \<noteq> Some ExponentialBackOffPolicy"
    by (simp add: onlyMaxAttempts_def)
  have 2: "backOffPolicy readmeExponential = Some ExponentialBackOffPolicy"
    "backOffPolicy onlyExponential = Some ExponentialBackOffPolicy"
    by (simp_all add: readmeExponential_def onlyExponential_def onlyMaxAttempts_def)
  have 3: "backOff readmeExponential = Some 1000"
    "exponentialOption readmeExponential = Some \<lparr>maxInterval = 10000, multiplier = 3\<rparr>"
    "backOff onlyExponential = None" "exponentialOption onlyExponential = None"
    by (simp_all add: readmeExponential_def onlyExponential_def onlyMaxAttempts_def)
  from createRetryHandler_frame [of "onlyMaxAttempts 2"] createRetryHandler_frame [of readmeExponential]
    createRetryHandler_frame [of onlyExponential] 1 2 3
  show ?thesis by simp
qed

section \<open>Construction\<close>

text \<open>
  Claim C9 says that building the handler fails when \<open>maxAttempts\<close> is negative. With
  \<^verbatim>\<open>{ maxAttempts: -1 }\<close> the handler is built, and a call of it resolves with
  \<^verbatim>\<open>undefined\<close> without invoking the operation.
\<close>

theorem negative_maxAttempts_is_accepted:
  "withRetry (onlyMaxAttempts (- 1)) (alwaysFails ''rejected'') quietWorld
     = (Inr Undefined, [], quietWorld)"
  by (simp add: run_defs onlyMaxAttempts_def)

text \<open>
  Claim C9, amended. Building the handler validates nothing and never fails. With a
  negative \<open>maxAttempts\<close> every call resolves with \<^verbatim>\<open>undefined\<close> and invokes the
  operation zero times; with \<open>maxAttempts = 0\<close> a call whose signal is not aborted
  invokes the operation exactly once and never sleeps.
\<close>

theorem construction_never_fails:
  "(maxAttempts options < 0 \<longrightarrow> withRetry options fn w = (Inr Undefined, [], w))
   \<and> (maxAttempts options = 0 \<and> \<not> signalAborted (signal options) w \<longrightarrow>
        invocations (trace (withRetry options fn w)) = 1
        \<and> sleeps (trace (withRetry options fn w)) = [])"
proof (intro conjI impI)
  assume "maxAttempts options < 0"
  then show "withRetry options fn w = (Inr Undefined, [], w)"
    using createRetryHandler_keeps [of options]
    by (simp add: withRetry_def retryAsync_def retryLoop.simps)
next
  assume a: "maxAttempts options = 0 \<and> \<not> signalAborted (signal options) w"
  obtain x w1 where fw: "fn w = (x, w1)" by (cases "fn w")
  from a fw have "trace (withRetry options fn w) = [Invoked x]"
    using createRetryHandler_keeps [of options]
    by (cases x) (simp_all add: withRetry_def retryAsync_def retryLoop.simps trace_def)
  then show "invocations (trace (withRetry options fn w)) = 1"
    and "sleeps (trace (withRetry options fn w)) = []"
    by simp_all
qed

theorem construction_never_fails_witness:
  "maxAttempts (onlyMaxAttempts (- 1)) < 0
   \<and> withRetry (onlyMaxAttempts (- 1)) (alwaysFails ''rejected'') quietWorld
       = (Inr Undefined, [], quietWorld)
   \<and> maxAttempts (withSignal (onlyMaxAttempts 0)) = 0
   \<and> \<not> signalAborted (signal (withSignal (onlyMaxAttempts 0))) quietWorld
   \<and> invocations (trace (withRetry (withSignal (onlyMaxAttempts 0)) (alwaysFails ''rejected'')
        quietWorld)) = 1
   \<and> sleeps (trace (withRetry (withSignal (onlyMaxAttempts 0)) (alwaysFails ''rejected'')
        quietWorld)) = []"
proof -
  have 1: "maxAttempts (onlyMaxAttempts (- 1)) < 0" by (simp add: onlyMaxAttempts_def)
  have 2: "maxAttempts (withSignal (onlyMaxAttempts 0)) = 0
      \<and> \<not> signalAborted (signal (withSignal (onlyMaxAttempts 0))) quietWorld"
    by (simp add: onlyMaxAttempts_def withSignal_def signalAborted_def quietWorld_def)
  from construction_never_fails [of "onlyMaxAttempts (- 1)" "alwaysFails ''rejected''" quietWorld]
    construction_never_fails [of "withSignal (onlyMaxAttempts 0)" "alwaysFails ''rejected''" quietWorld]
    1 2
  show ?thesis by simp
qed

end
